theory Spec2Isabelle
  imports Main
begin

section \<open>Strings and identifiers\<close>

text \<open>
  A JavaScript string is a sequence of UTF-16 code units; a code unit is modelled by its
  number. \<open>length\<close> is JavaScript's \<open>.length\<close>, and the regular expressions of the
  source, which have no \<open>u\<close> flag, match code unit by code unit. \<open>js\<close> turns a literal of
  the theory into such a string.
\<close>

type_synonym jsstring = "nat list"

definition js :: "string \<Rightarrow> jsstring" where
  "js lit = map of_char lit"

text \<open>
  \<open>String.prototype.trim\<close> strips the white space and line terminator code points of
  ECMAScript: tab, line feed, vertical tab, form feed, carriage return, space, no-break
  space, the other space separators (U+1680, U+2000 to U+200A, U+202F, U+205F, U+3000),
  the line and paragraph separators U+2028 and U+2029, and U+FEFF.
\<close>

definition isSpace :: "nat \<Rightarrow> bool" where
  "isSpace c = (c \<in> set [0x9, 0xA, 0xB, 0xC, 0xD, 0x20, 0xA0, 0x1680, 0x2000, 0x2001, 0x2002,
     0x2003, 0x2004, 0x2005, 0x2006, 0x2007, 0x2008, 0x2009, 0x200A, 0x2028, 0x2029, 0x202F,
     0x205F, 0x3000, 0xFEFF])"

definition trim :: "jsstring \<Rightarrow> jsstring" where
  "trim s = rev (dropWhile isSpace (rev (dropWhile isSpace s)))"

text \<open>The character class \<open>[a-zA-Z0-9_-]\<close> of both regular expressions.\<close>

definition idChar :: "nat \<Rightarrow> bool" where
  "idChar n =
     ((97 \<le> n \<and> n \<le> 122) \<or> (65 \<le> n \<and> n \<le> 90) \<or> (48 \<le> n \<and> n \<le> 57) \<or> n = 95 \<or> n = 45)"

text \<open>
  \<open>isValidGroupId\<close> of server.js: a falsy (empty) id is refused, then the trimmed id is
  matched against \<open>/^[a-zA-Z0-9_-]{2,50}$/\<close>.
\<close>

definition isValidGroupId :: "jsstring \<Rightarrow> bool" where
  "isValidGroupId groupId =
     (if groupId = [] then False
      else let trimmed = trim groupId
           in if trimmed = [] then False
              else 2 \<le> length trimmed \<and> length trimmed \<le> 50 \<and> list_all idChar trimmed)"

section \<open>The browser's user name check (public/js/main.js)\<close>

definition minLength :: nat where
  "minLength = 2"

definition maxLength :: nat where
  "maxLength = 20"

definition errEmpty :: string where
  "errEmpty = ''Username cannot be empty''"

definition errShort :: string where
  "errShort = ''Username must be at least 2 characters long''"

definition errLong :: string where
  "errLong = ''Username must be less than 20 characters''"

definition errChars :: string where
  "errChars = ''Username can only contain letters, numbers, underscores, and hyphens''"

text \<open>\<open>validateUsername\<close>: \<open>Some\<close> error message, or \<open>None\<close> for JavaScript's \<open>null\<close>.\<close>

definition validateUsername :: "jsstring \<Rightarrow> string option" where
  "validateUsername uname =
     (let trimmed = trim uname
      in if trimmed = [] then Some errEmpty
         else if length trimmed < minLength then Some errShort
         else if length trimmed > maxLength then Some errLong
         else if \<not> list_all idChar trimmed then Some errChars
         else None)"

text \<open>
  \<open>handleUsernameSubmit\<close> either shows the validation error and stops, or emits
  \<open>select_username\<close> with the trimmed name to the server.
\<close>

datatype client_action = ShowUsernameError string | EmitSelectUsername jsstring

definition handleUsernameSubmit :: "jsstring \<Rightarrow> client_action" where
  "handleUsernameSubmit uname =
     (case validateUsername uname of
        Some err \<Rightarrow> ShowUsernameError err
      | None \<Rightarrow> EmitSelectUsername (trim uname))"

section \<open>Server state (chat-app/server.js)\<close>

text \<open>
  A stored message is the object that the handlers serialise with \<open>JSON.stringify\<close> and read
  back with \<open>JSON.parse\<close>; the model stores the object itself. The time stamp is opaque.
\<close>

record message =
  msgGroupId :: "jsstring option"
  msgUsername :: jsstring
  msgText :: jsstring
  msgTimestamp :: jsstring

record group_meta =
  metaName :: jsstring
  metaOwner :: jsstring
  metaCreatedAt :: jsstring

text \<open>
  A connection: \<open>username\<close> is \<open>None\<close> while \<open>socket.username\<close> is undefined; \<open>rooms\<close> are
  the Socket.IO rooms the connection is in. Socket.IO puts every connection into the room
  named by the connection's own id when it connects.
\<close>

record socket =
  username :: "jsstring option"
  rooms :: "jsstring set"

text \<open>
  The state: the in-memory set \<open>activeUsernames\<close>; the connections by socket id, in two
  maps: \<open>pending\<close> holds a connection while the connection handler awaits the first history
  read, before it registers the connection's listeners, and \<open>sockets\<close> holds the connections
  whose listeners are registered; and the keys of the Redis store: the list
  \<open>chat_messages\<close>, the set \<open>groups\<close>, and per group the hash \<open>group:id:meta\<close>, the set
  \<open>group:id:members\<close> and the list \<open>group:id:messages\<close>. A key that does not exist reads
  as the empty hash, set or list, as in Redis. Lists have the newest element first:
  \<open>LPUSH\<close> adds at the head.
\<close>

record state =
  activeUsernames :: "jsstring set"
  pending :: "jsstring \<rightharpoonup> socket"
  sockets :: "jsstring \<rightharpoonup> socket"
  chatMessages :: "message list"
  groups :: "jsstring set"
  groupMeta :: "jsstring \<rightharpoonup> group_meta"
  groupMembers :: "jsstring \<Rightarrow> jsstring set"
  groupMessages :: "jsstring \<Rightarrow> message list"

definition init_state :: state where
  "init_state = \<lparr>activeUsernames = {}, pending = Map.empty, sockets = Map.empty,
     chatMessages = [], groups = {}, groupMeta = Map.empty, groupMembers = (\<lambda>_. {}),
     groupMessages = (\<lambda>_. [])\<rparr>"

text \<open>A connected socket, with or without listeners.\<close>

definition connectionOf :: "state \<Rightarrow> jsstring \<Rightarrow> socket option" where
  "connectionOf s k = (case sockets s k of Some c \<Rightarrow> Some c | None \<Rightarrow> pending s k)"

subsection \<open>Redis list commands\<close>

definition lpush :: "'a \<Rightarrow> 'a list \<Rightarrow> 'a list" where
  "lpush x xs = x # xs"

text \<open>
  \<open>LRANGE key start stop\<close>: negative indices count from the tail, a start before the head
  is the head, a stop past the tail is the tail, and an empty range is the empty list.
\<close>

definition lrange :: "'a list \<Rightarrow> int \<Rightarrow> int \<Rightarrow> 'a list" where
  "lrange xs start stop =
     (let llen = int (length xs);
          start1 = (if start < 0 then llen + start else start);
          stop1 = (if stop < 0 then llen + stop else stop);
          start2 = (if start1 < 0 then 0 else start1)
      in if start2 > stop1 \<or> start2 \<ge> llen then []
         else let stop2 = (if stop1 \<ge> llen then llen - 1 else stop1)
              in take (nat (stop2 - start2 + 1)) (drop (nat start2) xs))"

subsection \<open>Events\<close>

datatype event =
    UsernameTaken string
  | UsernameAccepted jsstring
  | UserJoined jsstring
  | UserLeft jsstring
  | ErrorEvent string
  | GroupCreated jsstring jsstring jsstring jsstring
  | GroupJoined jsstring jsstring "message list"
  | GroupMessage message
  | GroupHistoryCleared jsstring jsstring jsstring
  | GroupDeleted jsstring jsstring
  | LeftGroup jsstring string
  | MessageEvent message
  | HistoricalMessages "message list"
  | PaginatedMessages "message list" bool int
  | GlobalHistoryCleared jsstring jsstring

text \<open>
  Where an event is sent: \<open>socket.emit\<close>, \<open>socket.broadcast.emit\<close>, \<open>io.emit\<close>,
  \<open>io.to(room).emit\<close>.
\<close>

datatype target = ToSocket jsstring | Broadcast jsstring | ToAll | ToRoom jsstring

type_synonym emission = "target \<times> event"



subsection \<open>Error messages\<close>

definition msgTaken :: string where
  "msgTaken = ''Username is already taken. Please choose another.''"

definition msgNeedNameCreate :: string where
  "msgNeedNameCreate = ''Please select a username before creating groups.''"

definition msgNeedNameJoin :: string where
  "msgNeedNameJoin = ''Please select a username before joining groups.''"

definition msgNeedNameSend :: string where
  "msgNeedNameSend = ''Please select a username before sending messages.''"

definition msgNeedNameClearGroup :: string where
  "msgNeedNameClearGroup = ''Please select a username before clearing group history.''"

definition msgNeedNameDelete :: string where
  "msgNeedNameDelete = ''Please select a username before deleting groups.''"

definition msgNeedNameLeave :: string where
  "msgNeedNameLeave = ''Please select a username before leaving groups.''"

definition msgNeedNameClear :: string where
  "msgNeedNameClear = ''Please select a username before clearing chat history.''"

definition msgInvalidIdCreate :: string where
  "msgInvalidIdCreate = ''Invalid group ID. Use 2-50 chars: letters, numbers, _ or -.''"

definition msgInvalidId :: string where
  "msgInvalidId = ''Invalid group ID.''"

definition msgExists :: string where
  "msgExists = ''Group already exists.''"

definition msgNoGroup :: string where
  "msgNoGroup = ''Group does not exist.''"

definition msgNotMember :: string where
  "msgNotMember = ''You are not a member of this group.''"

definition msgNotOwner :: string where
  "msgNotOwner = ''Only the group owner can delete this group.''"

definition msgFailCreate :: string where
  "msgFailCreate = ''Failed to create group. Please try again.''"

definition msgFailJoin :: string where
  "msgFailJoin = ''Failed to join group. Please try again.''"

definition msgFailSend :: string where
  "msgFailSend = ''Failed to send message. Please try again.''"

definition msgFailClearGroup :: string where
  "msgFailClearGroup = ''Failed to clear group history. Please try again.''"

definition msgFailDelete :: string where
  "msgFailDelete = ''Failed to delete group. Please try again.''"

definition msgFailLeave :: string where
  "msgFailLeave = ''Failed to leave group. Please try again.''"

definition msgFailHistory :: string where
  "msgFailHistory = ''Failed to load chat history.''"

definition msgFailMore :: string where
  "msgFailMore = ''Failed to load more messages.''"

definition msgFailClear :: string where
  "msgFailClear = ''Failed to clear chat history. Please try again.''"

subsection \<open>JavaScript truthiness of \<open>socket.username\<close>\<close>

text \<open>\<open>!socket.username\<close> holds for undefined and for the empty string.\<close>

definition truthy :: "jsstring option \<Rightarrow> bool" where
  "truthy u = (case u of None \<Rightarrow> False | Some v \<Rightarrow> v \<noteq> [])"

definition usernameOf :: "socket \<Rightarrow> jsstring" where
  "usernameOf sock = (case username sock of None \<Rightarrow> [] | Some v \<Rightarrow> v)"

text \<open>
  JavaScript's \<open>a || b\<close> on a string field of the request: a missing field and the empty
  string are both falsy. The room handlers read their fields as \<open>data?.field || ''\<close>, so for
  them a missing payload or field is the empty string in the model.
\<close>

definition orElse :: "jsstring \<Rightarrow> jsstring \<Rightarrow> jsstring" where
  "orElse a b = (if a = [] then b else a)"

section \<open>Request handlers\<close>

text \<open>
  Every handler takes the state, the id and the record of the requesting connection and
  the request's fields, and returns the new state with the emissions in the order of the
  source. The fields that a request carries are strings (integers for the offset and the
  limit of a page). \<open>F\<close> is the set of the store commands that throw, by their position in
  the handler's sequence of store commands (0 is the first); a throw enters the handler's
  \<open>catch\<close> branch with the state as it is at that point. \<open>F = {}\<close> is a store that answers
  every command. \<open>now\<close> is the reading of the server's clock. A handler runs to completion
  before the next request is taken.

  The listeners of \<open>select_username\<close>, \<open>message\<close> and \<open>load_more_messages\<close> read a field
  of the payload without a guard. On a request without payload (\<open>None\<close>) they throw before
  anything is emitted or changed, and nothing in the source catches it: the model returns
  the state as it is and no emission.
\<close>

definition handleUsernameSelection ::
  "state \<Rightarrow> jsstring \<Rightarrow> socket \<Rightarrow> jsstring option \<Rightarrow> state \<times> emission list" where
  "handleUsernameSelection s sid sock data =
     (case data of
        None \<Rightarrow> (s, [])
      | Some uname \<Rightarrow>
          if uname \<in> activeUsernames s then (s, [(ToSocket sid, UsernameTaken msgTaken)])
          else (s\<lparr>activeUsernames := insert uname (activeUsernames s),
                   sockets := (sockets s)(sid \<mapsto> sock\<lparr>username := Some uname\<rparr>)\<rparr>,
                [(ToSocket sid, UsernameAccepted uname), (Broadcast sid, UserJoined uname)]))"

definition handleCreateGroup ::
  "state \<Rightarrow> jsstring \<Rightarrow> socket \<Rightarrow> jsstring \<Rightarrow> jsstring \<Rightarrow> jsstring \<Rightarrow> nat set
     \<Rightarrow> state \<times> emission list" where
  "handleCreateGroup s sid sock dataGroupId dataName now F =
     (if \<not> truthy (username sock) then (s, [(ToSocket sid, ErrorEvent msgNeedNameCreate)])
      else
        let groupId = trim (orElse dataGroupId []);
            groupName = trim (orElse dataName groupId);
            failed = [(ToSocket sid, ErrorEvent msgFailCreate)]
        in if \<not> isValidGroupId groupId then (s, [(ToSocket sid, ErrorEvent msgInvalidIdCreate)])
           else if 0 \<in> F then (s, failed)
           else if groupId \<in> groups s then (s, [(ToSocket sid, ErrorEvent msgExists)])
           else if 1 \<in> F then (s, failed)
           else
             let s1 = s\<lparr>groups := insert groupId (groups s)\<rparr>
             in if 2 \<in> F then (s1, failed)
                else
                  let s2 = s1\<lparr>groupMeta := (groupMeta s1)(groupId \<mapsto>
                             \<lparr>metaName = groupName, metaOwner = usernameOf sock,
                              metaCreatedAt = now\<rparr>)\<rparr>
                  in if 3 \<in> F then (s2, failed)
                     else
                       let s3 = s2\<lparr>groupMembers := (groupMembers s2)(groupId :=
                                  insert (usernameOf sock) (groupMembers s2 groupId))\<rparr>;
                           s4 = s3\<lparr>sockets := (sockets s3)(sid \<mapsto>
                                  sock\<lparr>rooms := insert groupId (rooms sock)\<rparr>)\<rparr>
                       in (s4, [(ToSocket sid,
                                 GroupCreated groupId groupName (usernameOf sock) now)]))"

definition handleJoinGroup ::
  "state \<Rightarrow> jsstring \<Rightarrow> socket \<Rightarrow> jsstring \<Rightarrow> nat set \<Rightarrow> state \<times> emission list" where
  "handleJoinGroup s sid sock dataGroupId F =
     (if \<not> truthy (username sock) then (s, [(ToSocket sid, ErrorEvent msgNeedNameJoin)])
      else
        let groupId = trim (orElse dataGroupId []);
            failed = [(ToSocket sid, ErrorEvent msgFailJoin)]
        in if \<not> isValidGroupId groupId then (s, [(ToSocket sid, ErrorEvent msgInvalidId)])
           else if 0 \<in> F then (s, failed)
           else if groupId \<notin> groups s then (s, [(ToSocket sid, ErrorEvent msgNoGroup)])
           else if 1 \<in> F then (s, failed)
           else
             let s1 = s\<lparr>groupMembers := (groupMembers s)(groupId :=
                        insert (usernameOf sock) (groupMembers s groupId))\<rparr>;
                 s2 = s1\<lparr>sockets := (sockets s1)(sid \<mapsto>
                        sock\<lparr>rooms := insert groupId (rooms sock)\<rparr>)\<rparr>
             in if 2 \<in> F then (s2, failed)
                else
                  let parsedMessages = lrange (groupMessages s2 groupId) 0 (- 1)
                  in if 3 \<in> F then (s2, failed)
                     else
                       let name = (case groupMeta s2 groupId of
                                     None \<Rightarrow> groupId
                                   | Some m \<Rightarrow> orElse (metaName m) groupId)
                       in (s2, [(ToSocket sid, GroupJoined groupId name parsedMessages)]))"

definition handleGroupMessage ::
  "state \<Rightarrow> jsstring \<Rightarrow> socket \<Rightarrow> jsstring \<Rightarrow> jsstring \<Rightarrow> jsstring \<Rightarrow> nat set
     \<Rightarrow> state \<times> emission list" where
  "handleGroupMessage s sid sock dataGroupId dataMessage timestamp F =
     (if \<not> truthy (username sock) then (s, [(ToSocket sid, ErrorEvent msgNeedNameSend)])
      else
        let groupId = trim (orElse dataGroupId []);
            messageText = trim (orElse dataMessage []);
            failed = [(ToSocket sid, ErrorEvent msgFailSend)]
        in if \<not> isValidGroupId groupId \<or> messageText = [] then (s, [])
           else if 0 \<in> F then (s, failed)
           else if usernameOf sock \<notin> groupMembers s groupId
             then (s, [(ToSocket sid, ErrorEvent msgNotMember)])
           else
             let messageData = \<lparr>msgGroupId = Some groupId, msgUsername = usernameOf sock,
                                msgText = messageText, msgTimestamp = timestamp\<rparr>
             in if 1 \<in> F then (s, failed)
                else (s\<lparr>groupMessages := (groupMessages s)(groupId :=
                          lpush messageData (groupMessages s groupId))\<rparr>,
                      [(ToRoom groupId, GroupMessage messageData)]))"

definition handleClearGroupHistory ::
  "state \<Rightarrow> jsstring \<Rightarrow> socket \<Rightarrow> jsstring \<Rightarrow> jsstring \<Rightarrow> nat set
     \<Rightarrow> state \<times> emission list" where
  "handleClearGroupHistory s sid sock dataGroupId now F =
     (if \<not> truthy (username sock) then (s, [(ToSocket sid, ErrorEvent msgNeedNameClearGroup)])
      else
        let groupId = trim (orElse dataGroupId []);
            failed = [(ToSocket sid, ErrorEvent msgFailClearGroup)]
        in if \<not> isValidGroupId groupId then (s, [])
           else if 0 \<in> F then (s, failed)
           else if usernameOf sock \<notin> groupMembers s groupId
             then (s, [(ToSocket sid, ErrorEvent msgNotMember)])
           else if 1 \<in> F then (s, failed)
           else (s\<lparr>groupMessages := (groupMessages s)(groupId := [])\<rparr>,
                 [(ToRoom groupId, GroupHistoryCleared groupId (usernameOf sock) now)]))"

text \<open>
  \<open>handleDeleteGroup\<close>: the owner test reads the \<open>owner\<close> field of the hash returned by
  \<open>HGETALL\<close>; on a missing hash the field is undefined, which differs from every user name.
  After the four removals every connection in the Socket.IO room of the group's name
  leaves it, whether its listeners are registered or not.
\<close>

definition leaveAll :: "jsstring \<Rightarrow> (jsstring \<rightharpoonup> socket) \<Rightarrow> (jsstring \<rightharpoonup> socket)" where
  "leaveAll groupId conns = (\<lambda>k. map_option (\<lambda>c. c\<lparr>rooms := rooms c - {groupId}\<rparr>) (conns k))"

definition handleDeleteGroup ::
  "state \<Rightarrow> jsstring \<Rightarrow> socket \<Rightarrow> jsstring \<Rightarrow> nat set \<Rightarrow> state \<times> emission list" where
  "handleDeleteGroup s sid sock dataGroupId F =
     (if \<not> truthy (username sock) then (s, [(ToSocket sid, ErrorEvent msgNeedNameDelete)])
      else
        let groupId = trim (orElse dataGroupId []);
            failed = [(ToSocket sid, ErrorEvent msgFailDelete)]
        in if \<not> isValidGroupId groupId then (s, [])
           else if 0 \<in> F then (s, failed)
           else if groupId \<notin> groups s then (s, [(ToSocket sid, ErrorEvent msgNoGroup)])
           else if 1 \<in> F then (s, failed)
           else if map_option metaOwner (groupMeta s groupId) \<noteq> Some (usernameOf sock)
             then (s, [(ToSocket sid, ErrorEvent msgNotOwner)])
           else
             let deleted = (ToRoom groupId, GroupDeleted groupId (usernameOf sock))
             in if 2 \<in> F then (s, deleted # failed)
                else
                  let s1 = s\<lparr>groupMessages := (groupMessages s)(groupId := [])\<rparr>
                  in if 3 \<in> F then (s1, deleted # failed)
                     else
                       let s2 = s1\<lparr>groupMembers := (groupMembers s1)(groupId := {})\<rparr>
                       in if 4 \<in> F then (s2, deleted # failed)
                          else
                            let s3 = s2\<lparr>groupMeta := (groupMeta s2)(groupId := None)\<rparr>
                            in if 5 \<in> F then (s3, deleted # failed)
                               else
                                 let s4 = s3\<lparr>groups := groups s3 - {groupId}\<rparr>;
                                     s5 = s4\<lparr>pending := leaveAll groupId (pending s4),
                                             sockets := leaveAll groupId (sockets s4)\<rparr>
                                 in (s5, [deleted]))"

definition handleLeaveGroup ::
  "state \<Rightarrow> jsstring \<Rightarrow> socket \<Rightarrow> jsstring \<Rightarrow> nat set \<Rightarrow> state \<times> emission list" where
  "handleLeaveGroup s sid sock dataGroupId F =
     (if \<not> truthy (username sock) then (s, [(ToSocket sid, ErrorEvent msgNeedNameLeave)])
      else
        let groupId = trim (orElse dataGroupId []);
            failed = [(ToSocket sid, ErrorEvent msgFailLeave)]
        in if \<not> isValidGroupId groupId then (s, [])
           else if 0 \<in> F then (s, failed)
           else if usernameOf sock \<notin> groupMembers s groupId
             then (s, [(ToSocket sid, LeftGroup groupId ''not_member'')])
           else if 1 \<in> F then (s, failed)
           else
             let s1 = s\<lparr>groupMembers := (groupMembers s)(groupId :=
                        groupMembers s groupId - {usernameOf sock})\<rparr>;
                 s2 = s1\<lparr>sockets := (sockets s1)(sid \<mapsto>
                        sock\<lparr>rooms := rooms sock - {groupId}\<rparr>)\<rparr>
             in (s2, [(ToSocket sid, LeftGroup groupId ''ok'')]))"

text \<open>\<open>handleMessage\<close>; the payload is the pair of the message and its time stamp.\<close>

definition handleMessage ::
  "state \<Rightarrow> jsstring \<Rightarrow> socket \<Rightarrow> (jsstring \<times> jsstring) option \<Rightarrow> nat set
     \<Rightarrow> state \<times> emission list" where
  "handleMessage s sid sock data F =
     (if \<not> truthy (username sock) then (s, [(ToSocket sid, ErrorEvent msgNeedNameSend)])
      else
        case data of
          None \<Rightarrow> (s, [])
        | Some (dataMessage, timestamp) \<Rightarrow>
            let messageData = \<lparr>msgGroupId = None, msgUsername = usernameOf sock,
                               msgText = dataMessage, msgTimestamp = timestamp\<rparr>
            in if 0 \<in> F then (s, [(ToSocket sid, ErrorEvent msgFailSend)])
               else (s\<lparr>chatMessages := lpush messageData (chatMessages s)\<rparr>,
                     [(ToAll, MessageEvent messageData)]))"

text \<open>
  \<open>handleDisconnection\<close>; Socket.IO then drops the connection, with its rooms, from the
  connections.
\<close>

definition handleDisconnection :: "state \<Rightarrow> jsstring \<Rightarrow> socket \<Rightarrow> state \<times> emission list" where
  "handleDisconnection s sid sock =
     (if truthy (username sock)
      then (s\<lparr>activeUsernames := activeUsernames s - {usernameOf sock},
               sockets := (sockets s)(sid := None)\<rparr>,
            [(Broadcast sid, UserLeft (usernameOf sock))])
      else (s\<lparr>sockets := (sockets s)(sid := None)\<rparr>, []))"

subsection \<open>History\<close>

text \<open>The full-range read of a log: \<open>LRANGE key 0 -1\<close>.\<close>

definition readAll :: "message list \<Rightarrow> message list" where
  "readAll log = lrange log 0 (- 1)"

definition loadHistoricalMessages :: "state \<Rightarrow> jsstring \<Rightarrow> nat set \<Rightarrow> state \<times> emission list" where
  "loadHistoricalMessages s sid F =
     (if 0 \<in> F then (s, [(ToSocket sid, ErrorEvent msgFailHistory)])
      else (s, [(ToSocket sid, HistoricalMessages (readAll (chatMessages s)))]))"

text \<open>
  The bounded read of \<open>loadPaginatedMessages\<close>: the slice, then \<open>hasMore\<close> and the
  continuation offset computed from its length.
\<close>

record page =
  pageMessages :: "message list"
  pageHasMore :: bool
  pageOffset :: int

definition readRange :: "message list \<Rightarrow> int \<Rightarrow> int \<Rightarrow> page" where
  "readRange log offset limit =
     (let messages = lrange log offset (offset + limit - 1)
      in \<lparr>pageMessages = messages,
          pageHasMore = (int (length messages) = limit),
          pageOffset = offset + int (length messages)\<rparr>)"

text \<open>The parameters default to 0 and 50 when the request leaves them undefined.\<close>

definition loadPaginatedMessages ::
  "state \<Rightarrow> jsstring \<Rightarrow> int option \<Rightarrow> int option \<Rightarrow> nat set \<Rightarrow> state \<times> emission list" where
  "loadPaginatedMessages s sid dataOffset dataLimit F =
     (let offset = (case dataOffset of None \<Rightarrow> 0 | Some v \<Rightarrow> v);
          limit = (case dataLimit of None \<Rightarrow> 50 | Some v \<Rightarrow> v)
      in if 0 \<in> F then (s, [(ToSocket sid, ErrorEvent msgFailMore)])
         else let p = readRange (chatMessages s) offset limit
              in (s, [(ToSocket sid,
                       PaginatedMessages (pageMessages p) (pageHasMore p) (pageOffset p))]))"

definition clearChatHistory ::
  "state \<Rightarrow> jsstring \<Rightarrow> socket \<Rightarrow> jsstring \<Rightarrow> nat set \<Rightarrow> state \<times> emission list" where
  "clearChatHistory s sid sock now F =
     (if \<not> truthy (username sock) then (s, [(ToSocket sid, ErrorEvent msgNeedNameClear)])
      else if 0 \<in> F then (s, [(ToSocket sid, ErrorEvent msgFailClear)])
      else (s\<lparr>chatMessages := []\<rparr>,
            [(ToAll, GlobalHistoryCleared (usernameOf sock) now)]))"

subsection \<open>The connection handler\<close>

text \<open>
  What happens at the server: a client connects (\<open>Connect\<close>); the history read that the
  connection handler awaits returns (\<open>HistoryLoaded\<close>); a client sends one of the requests;
  a client disconnects (\<open>Disconnect\<close>). The payloads of \<open>select_username\<close>, \<open>message\<close> and
  \<open>load_more_messages\<close> are \<open>None\<close> when the request has none.
\<close>

datatype request =
    Connect
  | HistoryLoaded
  | SelectUsername "jsstring option"
  | SendMessage "(jsstring \<times> jsstring) option"
  | LoadMoreMessages "(int option \<times> int option) option"
  | ClearHistory
  | CreateGroup jsstring jsstring
  | JoinGroup jsstring
  | LeaveGroup jsstring
  | SendGroupMessage jsstring jsstring jsstring
  | ClearGroupHistory jsstring
  | DeleteGroup jsstring
  | RequestGlobalHistory
  | Disconnect

text \<open>
  The connection handler of a new connection first awaits \<open>loadHistoricalMessages\<close> and
  registers the listeners after it: \<open>connection\<close> is its start, with the fresh socket in its
  own room and no user name, and \<open>historyLoaded\<close> is the return of the read, which sends
  the history (or the error) and makes the connection one with listeners.
\<close>

definition connection :: "state \<Rightarrow> jsstring \<Rightarrow> state \<times> emission list" where
  "connection s sid = (s\<lparr>pending := (pending s)(sid \<mapsto> \<lparr>username = None, rooms = {sid}\<rparr>)\<rparr>, [])"

definition historyLoaded :: "state \<Rightarrow> jsstring \<Rightarrow> socket \<Rightarrow> nat set \<Rightarrow> state \<times> emission list" where
  "historyLoaded s sid c F =
     (s\<lparr>pending := (pending s)(sid := None), sockets := (sockets s)(sid \<mapsto> c)\<rparr>,
      snd (loadHistoricalMessages s sid F))"

text \<open>The listeners of a connection. The first two are not requests of a connection.\<close>

fun handle ::
  "state \<Rightarrow> jsstring \<Rightarrow> socket \<Rightarrow> request \<Rightarrow> jsstring \<Rightarrow> nat set \<Rightarrow> state \<times> emission list" where
  "handle s sid sock Connect now F = (s, [])"
| "handle s sid sock HistoryLoaded now F = (s, [])"
| "handle s sid sock (SelectUsername data) now F = handleUsernameSelection s sid sock data"
| "handle s sid sock (SendMessage data) now F = handleMessage s sid sock data F"
| "handle s sid sock (LoadMoreMessages None) now F = (s, [])"
| "handle s sid sock (LoadMoreMessages (Some (off, lim))) now F =
     loadPaginatedMessages s sid off lim F"
| "handle s sid sock ClearHistory now F = clearChatHistory s sid sock now F"
| "handle s sid sock (CreateGroup g n) now F = handleCreateGroup s sid sock g n now F"
| "handle s sid sock (JoinGroup g) now F = handleJoinGroup s sid sock g F"
| "handle s sid sock (LeaveGroup g) now F = handleLeaveGroup s sid sock g F"
| "handle s sid sock (SendGroupMessage g m ts) now F = handleGroupMessage s sid sock g m ts F"
| "handle s sid sock (ClearGroupHistory g) now F = handleClearGroupHistory s sid sock g now F"
| "handle s sid sock (DeleteGroup g) now F = handleDeleteGroup s sid sock g F"
| "handle s sid sock RequestGlobalHistory now F = loadHistoricalMessages s sid F"
| "handle s sid sock Disconnect now F = handleDisconnection s sid sock"

record input =
  inSid :: jsstring
  inRequest :: request
  inNow :: jsstring
  inFaults :: "nat set"

text \<open>
  Socket.IO gives every connection its own id, so a \<open>Connect\<close> on an id that is connected
  changes nothing. A connection whose listeners are not registered yet has no handler for
  what its client sends: the request is lost, and a disconnect only removes the
  connection. Nothing arrives from an id that is not connected.
\<close>

definition dispatch :: "state \<Rightarrow> input \<Rightarrow> state \<times> emission list" where
  "dispatch s i =
     (case sockets s (inSid i) of
        Some sock \<Rightarrow> handle s (inSid i) sock (inRequest i) (inNow i) (inFaults i)
      | None \<Rightarrow>
          (case pending s (inSid i) of
             Some c \<Rightarrow>
               (if inRequest i = HistoryLoaded then historyLoaded s (inSid i) c (inFaults i)
                else if inRequest i = Disconnect
                  then (s\<lparr>pending := (pending s)(inSid i := None)\<rparr>, [])
                else (s, []))
           | None \<Rightarrow> (if inRequest i = Connect then connection s (inSid i) else (s, []))))"

text \<open>Running a sequence of inputs from a state; the states the server can reach.\<close>

fun run :: "state \<Rightarrow> input list \<Rightarrow> state" where
  "run s [] = s"
| "run s (i # is) = run (fst (dispatch s i)) is"

inductive reachable :: "state \<Rightarrow> bool" where
  reachable_init: "reachable init_state"
| reachable_step: "reachable s \<Longrightarrow> reachable (fst (dispatch s i))"

subsection \<open>Reading a whole log page by page\<close>

text \<open>
  A reader that asks for the page at offset 0 and then for the page at each returned
  continuation offset, until a page comes back with \<open>hasMore\<close> false. The fuel bounds the
  number of requests; \<open>None\<close> is a reader that has not finished within it.
\<close>

fun fetchPages :: "nat \<Rightarrow> message list \<Rightarrow> int \<Rightarrow> int \<Rightarrow> page list option" where
  "fetchPages 0 log offset limit = None"
| "fetchPages (Suc fuel) log offset limit =
     (let p = readRange log offset limit
      in if pageHasMore p then map_option (Cons p) (fetchPages fuel log (pageOffset p) limit)
         else Some [p])"

subsection \<open>Vocabulary of the properties\<close>

text \<open>The identity held by a connection with listeners, if any.\<close>

definition identityOf :: "state \<Rightarrow> jsstring \<Rightarrow> jsstring option" where
  "identityOf s k = (case sockets s k of None \<Rightarrow> None | Some c \<Rightarrow> username c)"

text \<open>
  Every identity held by a connection is in \<open>activeUsernames\<close>, and no two connections
  hold the same identity.
\<close>

definition uniqueIdentities :: "state \<Rightarrow> bool" where
  "uniqueIdentities s =
     ((\<forall>k u. identityOf s k = Some u \<longrightarrow> u \<in> activeUsernames s)
      \<and> (\<forall>a b u. identityOf s a = Some u \<and> identityOf s b = Some u \<longrightarrow> a = b))"

text \<open>A connection whose listeners are not registered yet has no user name.\<close>

definition pendingUnnamed :: "state \<Rightarrow> bool" where
  "pendingUnnamed s = (\<forall>k c. pending s k = Some c \<longrightarrow> username c = None)"

text \<open>A step that leaves the claimed names and every connection's identity as they are.\<close>

definition sameIdentities :: "state \<Rightarrow> state \<Rightarrow> bool" where
  "sameIdentities s t =
     (activeUsernames t = activeUsernames s \<and> identityOf t = identityOf s
      \<and> (pendingUnnamed s \<longrightarrow> pendingUnnamed t))"

text \<open>Every id in the registry of rooms is well formed.\<close>

definition validRegistry :: "state \<Rightarrow> bool" where
  "validRegistry s = (\<forall>r. r \<in> groups s \<longrightarrow> isValidGroupId r)"







subsection \<open>Example data\<close>

definition sidA :: jsstring where
  "sidA = js ''sidA''"

definition sidB :: jsstring where
  "sidB = js ''sidB''"

definition alice :: jsstring where
  "alice = js ''alice''"

definition bob :: jsstring where
  "bob = js ''bob''"

definition zoe :: jsstring where
  "zoe = js ''zoe''"

definition team1 :: jsstring where
  "team1 = js ''team1''"

definition ts0 :: jsstring where
  "ts0 = js ''ts''"

definition now0 :: jsstring where
  "now0 = js ''now''"

text \<open>An input at clock reading \<open>now0\<close> during which the store answers every command.\<close>

definition req :: "jsstring \<Rightarrow> request \<Rightarrow> input" where
  "req sid r = \<lparr>inSid = sid, inRequest = r, inNow = now0, inFaults = {}\<rparr>"

definition lobbyMsg :: "jsstring \<Rightarrow> string \<Rightarrow> message" where
  "lobbyMsg u body = \<lparr>msgGroupId = None, msgUsername = u, msgText = js body, msgTimestamp = ts0\<rparr>"

definition roomMsg :: "jsstring \<Rightarrow> jsstring \<Rightarrow> string \<Rightarrow> message" where
  "roomMsg g u body =
     \<lparr>msgGroupId = Some g, msgUsername = u, msgText = js body, msgTimestamp = ts0\<rparr>"

text \<open>A global message and a room message with the time stamp \<open>ts0\<close>, as requests.\<close>

definition say :: "string \<Rightarrow> request" where
  "say body = SendMessage (Some (js body, ts0))"

definition sayIn :: "jsstring \<Rightarrow> string \<Rightarrow> request" where
  "sayIn g body = SendGroupMessage g (js body) ts0"

text \<open>A client connects and the awaited history read returns.\<close>

definition connect :: "jsstring \<Rightarrow> input list" where
  "connect sid = [req sid Connect, req sid HistoryLoaded]"

section \<open>Properties of the message store\<close>

lemma lrange_all: "lrange xs 0 (- 1) = xs"
  by (cases xs) (simp_all add: lrange_def Let_def)

lemma lrange_window:
  assumes "0 \<le> a" "0 < l"
  shows "lrange xs a (a + l - 1) = take (nat l) (drop (nat a) xs)"
proof (cases "a \<ge> int (length xs)")
  case True
  with assms show ?thesis by (simp add: lrange_def Let_def)
next
  case False
  show ?thesis
  proof (cases "a + l - 1 \<ge> int (length xs)")
    case True
    with False assms have "length (drop (nat a) xs) \<le> nat l" by simp
    with True False assms show ?thesis by (simp add: lrange_def Let_def)
  next
    case past: False
    with False assms show ?thesis by (simp add: lrange_def Let_def)
  qed
qed

lemma readAll_id: "readAll log = log"
  by (simp add: readAll_def lrange_all)

lemmas handler_defs = dispatch_def connection_def historyLoaded_def loadHistoricalMessages_def
  handleUsernameSelection_def handleMessage_def handleCreateGroup_def handleLeaveGroup_def
  handleJoinGroup_def handleGroupMessage_def handleClearGroupHistory_def handleDeleteGroup_def
  handleDisconnection_def loadPaginatedMessages_def clearChatHistory_def leaveAll_def
  truthy_def usernameOf_def lpush_def Let_def orElse_def connectionOf_def

lemmas string_defs = isValidGroupId_def trim_def isSpace_def idChar_def js_def

lemmas example_defs = req_def connect_def say_def sayIn_def sidA_def sidB_def alice_def bob_def
  zoe_def team1_def ts0_def now0_def lobbyMsg_def roomMsg_def init_state_def

text \<open>
  C2 (the code's behaviour at a concrete input). The logs are written with \<open>LPUSH\<close> and
  the full-range read is \<open>LRANGE 0 -1\<close>, so the full history comes back newest first: after
  alice sends \<open>first\<close> and then \<open>second\<close> to the lobby, a request for the global history is
  answered with \<open>second\<close> before \<open>first\<close>; and bob, who joins the room \<open>team1\<close> after alice
  sent \<open>one\<close> and then \<open>two\<close> there, gets \<open>two\<close> before \<open>one\<close>.
\<close>

theorem full_history_newest_first:
  "snd (dispatch
     (run init_state
        (connect sidA @ [req sidA (SelectUsername (Some alice)),
         req sidA (say ''first''), req sidA (say ''second'')]))
     (req sidA RequestGlobalHistory))
   = [(ToSocket sidA, HistoricalMessages [lobbyMsg alice ''second'', lobbyMsg alice ''first''])]
   \<and>
   snd (dispatch
     (run init_state
        (connect sidA @ [req sidA (SelectUsername (Some alice)), req sidA (CreateGroup team1 []),
         req sidA (sayIn team1 ''one''), req sidA (sayIn team1 ''two'')]
         @ connect sidB @ [req sidB (SelectUsername (Some bob))]))
     (req sidB (JoinGroup team1)))
   = [(ToSocket sidB, GroupJoined team1 team1
         [roomMsg team1 alice ''two'', roomMsg team1 alice ''one''])]"
  by (simp add: handler_defs string_defs example_defs readAll_id lrange_all)

text \<open>
  C7. For an offset that is not negative and a positive limit, the bounded read returns the
  \<open>limit\<close> entries of the log that follow its first \<open>offset\<close> entries (the log has the
  newest entry first, so these start \<open>offset\<close> messages back from the newest), or as many
  as there are; \<open>hasMore\<close> says whether the count is the limit, and the continuation offset
  is the offset plus the count. \<open>loadPaginatedMessages\<close> answers the requester with exactly
  this page of the lobby's log.
\<close>

theorem readRange_window:
  assumes "0 \<le> offset" and "0 < limit"
  shows "pageMessages (readRange log offset limit) = take (nat limit) (drop (nat offset) log)
    \<and> length (pageMessages (readRange log offset limit)) \<le> nat limit
    \<and> pageHasMore (readRange log offset limit)
        = (int (length (pageMessages (readRange log offset limit))) = limit)
    \<and> pageOffset (readRange log offset limit)
        = offset + int (length (pageMessages (readRange log offset limit)))
    \<and> loadPaginatedMessages s sid (Some offset) (Some limit) {}
        = (s, [(ToSocket sid, PaginatedMessages
                 (take (nat limit) (drop (nat offset) (chatMessages s)))
                 (int (length (take (nat limit) (drop (nat offset) (chatMessages s)))) = limit)
                 (offset + int (length (take (nat limit) (drop (nat offset) (chatMessages s))))))])"
  using assms by (simp add: readRange_def loadPaginatedMessages_def Let_def lrange_window)

theorem readRange_window_witness:
  "(0::int) \<le> 1 \<and> (0::int) < 2
   \<and> readRange [lobbyMsg alice ''m3'', lobbyMsg alice ''m2'', lobbyMsg alice ''m1''] 1 2
       = \<lparr>pageMessages = [lobbyMsg alice ''m2'', lobbyMsg alice ''m1''], pageHasMore = True,
          pageOffset = 3\<rparr>
   \<and> readRange [lobbyMsg alice ''m3'', lobbyMsg alice ''m2'', lobbyMsg alice ''m1''] 2 2
       = \<lparr>pageMessages = [lobbyMsg alice ''m1''], pageHasMore = False, pageOffset = 3\<rparr>"
  using readRange_window [of 1 2 "[lobbyMsg alice ''m3'', lobbyMsg alice ''m2'', lobbyMsg alice ''m1'']"]
    readRange_window [of 2 2 "[lobbyMsg alice ''m3'', lobbyMsg alice ''m2'', lobbyMsg alice ''m1'']"]
  by (simp add: readRange_def Let_def)

lemma fetchPages_drop:
  assumes "0 < L"
  shows "0 \<le> off \<Longrightarrow> length log - nat off < fuel \<Longrightarrow>
    \<exists>ps. fetchPages fuel log off L = Some ps \<and> ps \<noteq> [] \<and>
      concat (map pageMessages ps) = drop (nat off) log \<and> \<not> pageHasMore (last ps)"
proof (induction fuel arbitrary: off)
  case 0
  then show ?case by simp
next
  case (Suc fuel)
  let ?p = "readRange log off L"
  have msgs: "pageMessages ?p = take (nat L) (drop (nat off) log)"
    using assms Suc.prems(1) by (simp add: readRange_def Let_def lrange_window)
  have hm: "pageHasMore ?p = (int (length (pageMessages ?p)) = L)"
    by (simp add: readRange_def Let_def)
  have po: "pageOffset ?p = off + int (length (pageMessages ?p))"
    by (simp add: readRange_def Let_def)
  show ?case
  proof (cases "pageHasMore ?p")
    case False
    then have "length (take (nat L) (drop (nat off) log)) \<noteq> nat L"
      using hm msgs assms by auto
    then have "take (nat L) (drop (nat off) log) = drop (nat off) log"
      by (simp add: min_def split: if_splits)
    with False msgs show ?thesis by (simp add: Let_def)
  next
    case True
    then have len: "int (length (pageMessages ?p)) = L" using hm by simp
    then have le: "nat L \<le> length log - nat off"
      using msgs by (simp add: min_def split: if_splits)
    have next_off: "pageOffset ?p = off + L" using po len by simp
    have nn: "0 \<le> off + L" using assms Suc.prems(1) by simp
    have "length log - nat (off + L) < fuel"
      using Suc.prems assms le by (simp add: nat_add_distrib)
    from Suc.IH[OF nn this] obtain ps where
      ps: "fetchPages fuel log (off + L) L = Some ps" "ps \<noteq> []"
        "concat (map pageMessages ps) = drop (nat (off + L)) log" "\<not> pageHasMore (last ps)"
      by blast
    have "take (nat L) (drop (nat off) log) @ drop (nat (off + L)) log = drop (nat off) log"
      using assms Suc.prems(1)
      by (metis add.commute append_take_drop_id drop_drop nat_add_distrib order_less_imp_le)
    with True ps msgs next_off show ?thesis by (simp add: Let_def)
  qed
qed

text \<open>
  C8. For a positive page size, a reader that starts at offset 0 and follows the returned
  continuation offsets finishes (any fuel above the length of the log is enough), the
  concatenation of its pages is exactly what the full-range read returns, and its last
  page has \<open>hasMore\<close> false.
\<close>

theorem fetchPages_reconstructs_readAll:
  assumes "0 < L" and "length log < fuel"
  shows "\<exists>ps. fetchPages fuel log 0 L = Some ps \<and> ps \<noteq> []
           \<and> concat (map pageMessages ps) = readAll log \<and> \<not> pageHasMore (last ps)"
  using fetchPages_drop [OF assms(1), of 0 log fuel] assms(2) by (simp add: readAll_id)

theorem fetchPages_reconstructs_readAll_witness:
  "(0::int) < 2 \<and> length [lobbyMsg alice ''m4'', lobbyMsg alice ''m3'', lobbyMsg alice ''m2'',
       lobbyMsg alice ''m1''] < (5::nat)
   \<and> fetchPages 5 [lobbyMsg alice ''m4'', lobbyMsg alice ''m3'', lobbyMsg alice ''m2'',
       lobbyMsg alice ''m1''] 0 2
     = Some [\<lparr>pageMessages = [lobbyMsg alice ''m4'', lobbyMsg alice ''m3''], pageHasMore = True,
               pageOffset = 2\<rparr>,
             \<lparr>pageMessages = [lobbyMsg alice ''m2'', lobbyMsg alice ''m1''], pageHasMore = True,
               pageOffset = 4\<rparr>,
             \<lparr>pageMessages = [], pageHasMore = False, pageOffset = 4\<rparr>]
   \<and> readAll [lobbyMsg alice ''m4'', lobbyMsg alice ''m3'', lobbyMsg alice ''m2'',
       lobbyMsg alice ''m1'']
     = [lobbyMsg alice ''m4'', lobbyMsg alice ''m3''] @ [lobbyMsg alice ''m2'', lobbyMsg alice ''m1'']
       @ []"
  using fetchPages_reconstructs_readAll [of 2 "[lobbyMsg alice ''m4'', lobbyMsg alice ''m3'',
    lobbyMsg alice ''m2'', lobbyMsg alice ''m1'']" 5]
  by (simp add: readRange_def lrange_def Let_def readAll_def eval_nat_numeral)

section \<open>Identities\<close>

lemma sameIdentities_inv:
  "sameIdentities s t \<Longrightarrow> uniqueIdentities s \<and> pendingUnnamed s
     \<Longrightarrow> uniqueIdentities t \<and> pendingUnnamed t"
  by (simp add: sameIdentities_def uniqueIdentities_def)

lemma same_create:
  "sockets s sid = Some sock \<Longrightarrow> sameIdentities s (fst (handleCreateGroup s sid sock g n now F))"
  by (simp add: handleCreateGroup_def Let_def sameIdentities_def identityOf_def fun_eq_iff
      pendingUnnamed_def)

lemma same_join:
  "sockets s sid = Some sock \<Longrightarrow> sameIdentities s (fst (handleJoinGroup s sid sock g F))"
  by (simp add: handleJoinGroup_def Let_def sameIdentities_def identityOf_def fun_eq_iff
      pendingUnnamed_def)

lemma same_leave:
  "sockets s sid = Some sock \<Longrightarrow> sameIdentities s (fst (handleLeaveGroup s sid sock g F))"
  by (simp add: handleLeaveGroup_def Let_def sameIdentities_def identityOf_def fun_eq_iff
      pendingUnnamed_def)

lemma same_send:
  "sameIdentities s (fst (handleGroupMessage s sid sock g m ts F))"
  by (simp add: handleGroupMessage_def Let_def sameIdentities_def identityOf_def fun_eq_iff
      pendingUnnamed_def)

lemma same_clear:
  "sameIdentities s (fst (handleClearGroupHistory s sid sock g now F))"
  by (simp add: handleClearGroupHistory_def Let_def sameIdentities_def identityOf_def fun_eq_iff
      pendingUnnamed_def)

lemma identityOf_leaveAll:
  "identityOf (s\<lparr>pending := leaveAll g (pending s), sockets := leaveAll g (sockets s)\<rparr>) k
     = identityOf s k"
  by (simp add: identityOf_def leaveAll_def split: option.split)

lemma pendingUnnamed_leaveAll:
  "pendingUnnamed s \<Longrightarrow>
   pendingUnnamed (s\<lparr>pending := leaveAll g (pending s), sockets := leaveAll g (sockets s)\<rparr>)"
  by (auto simp: pendingUnnamed_def leaveAll_def)

lemma same_delete:
  "sameIdentities s (fst (handleDeleteGroup s sid sock g F))"
proof -
  let ?g = "trim (orElse g [])"
  let ?t = "s\<lparr>groupMessages := (groupMessages s)(?g := []),
              groupMembers := (groupMembers s)(?g := {}),
              groupMeta := (groupMeta s)(?g := None), groups := groups s - {?g}\<rparr>"
  have torn: "sameIdentities s (?t\<lparr>pending := leaveAll ?g (pending ?t),
                                    sockets := leaveAll ?g (sockets ?t)\<rparr>)"
    using identityOf_leaveAll [of ?g ?t] pendingUnnamed_leaveAll [of ?t ?g]
    by (simp add: sameIdentities_def fun_eq_iff identityOf_def pendingUnnamed_def)
  have early: "sameIdentities s s" "sameIdentities s (s\<lparr>groupMessages := (groupMessages s)(?g := [])\<rparr>)"
    "sameIdentities s (s\<lparr>groupMessages := (groupMessages s)(?g := []),
        groupMembers := (groupMembers s)(?g := {})\<rparr>)"
    "sameIdentities s (s\<lparr>groupMessages := (groupMessages s)(?g := []),
        groupMembers := (groupMembers s)(?g := {}), groupMeta := (groupMeta s)(?g := None)\<rparr>)"
    by (simp_all add: sameIdentities_def identityOf_def fun_eq_iff pendingUnnamed_def)
  show ?thesis using torn early by (simp add: handleDeleteGroup_def Let_def)
qed

lemma same_message:
  "sameIdentities s (fst (handleMessage s sid sock data F))"
  by (simp add: handleMessage_def Let_def sameIdentities_def identityOf_def fun_eq_iff
      pendingUnnamed_def split: option.split)

lemma same_history:
  "sameIdentities s (fst (loadHistoricalMessages s sid F))"
  by (simp add: loadHistoricalMessages_def sameIdentities_def identityOf_def fun_eq_iff)

lemma same_paginated:
  "sameIdentities s (fst (loadPaginatedMessages s sid off lim F))"
  by (simp add: loadPaginatedMessages_def Let_def sameIdentities_def identityOf_def fun_eq_iff)

lemma same_clearChat:
  "sameIdentities s (fst (clearChatHistory s sid sock now F))"
  by (simp add: clearChatHistory_def sameIdentities_def identityOf_def fun_eq_iff
      pendingUnnamed_def)

lemma same_refl: "sameIdentities s s"
  by (simp add: sameIdentities_def)

lemma unique_select:
  assumes "uniqueIdentities s \<and> pendingUnnamed s" "sockets s sid = Some sock"
  shows "uniqueIdentities (fst (handleUsernameSelection s sid sock data))
    \<and> pendingUnnamed (fst (handleUsernameSelection s sid sock data))"
  using assms
  by (auto simp: handleUsernameSelection_def uniqueIdentities_def identityOf_def
      pendingUnnamed_def split: option.splits if_splits)

lemma identityOf_disconnect:
  "identityOf (fst (handleDisconnection s sid sock)) k = (if k = sid then None else identityOf s k)"
  by (simp add: handleDisconnection_def identityOf_def)

lemma active_disconnect:
  "activeUsernames (fst (handleDisconnection s sid sock))
     = (if truthy (username sock) then activeUsernames s - {usernameOf sock} else activeUsernames s)"
  by (simp add: handleDisconnection_def)

lemma unique_disconnect:
  assumes inv: "uniqueIdentities s" and live: "sockets s sid = Some sock"
  shows "uniqueIdentities (fst (handleDisconnection s sid sock))"
proof -
  let ?t = "fst (handleDisconnection s sid sock)"
  have own: "identityOf s sid = username sock" using live by (simp add: identityOf_def)
  have held: "u \<in> activeUsernames ?t" if "identityOf ?t k = Some u" for k u
  proof -
    from that have k: "k \<noteq> sid" and id: "identityOf s k = Some u"
      by (simp_all add: identityOf_disconnect split: if_splits)
    from inv id have "u \<in> activeUsernames s" by (auto simp: uniqueIdentities_def)
    moreover have "u \<noteq> usernameOf sock" if "truthy (username sock)"
    proof
      assume "u = usernameOf sock"
      with that have "identityOf s sid = Some u"
        using own by (simp add: truthy_def usernameOf_def split: option.splits)
      with inv id have "k = sid" by (auto simp: uniqueIdentities_def)
      with k show False by simp
    qed
    ultimately show ?thesis by (auto simp: active_disconnect)
  qed
  have inj: "a = b" if "identityOf ?t a = Some u" "identityOf ?t b = Some u" for a b u
  proof -
    from that have "identityOf s a = Some u" "identityOf s b = Some u"
      by (simp_all add: identityOf_disconnect split: if_splits)
    with inv show ?thesis by (auto simp: uniqueIdentities_def)
  qed
  show ?thesis unfolding uniqueIdentities_def using held inj by blast
qed

lemma pending_disconnect:
  "pendingUnnamed s \<Longrightarrow> pendingUnnamed (fst (handleDisconnection s sid sock))"
  by (simp add: handleDisconnection_def pendingUnnamed_def)

lemma unique_handle:
  assumes "uniqueIdentities s \<and> pendingUnnamed s" "sockets s sid = Some sock"
  shows "uniqueIdentities (fst (handle s sid sock r now F))
    \<and> pendingUnnamed (fst (handle s sid sock r now F))"
proof (cases r)
  case (SelectUsername data)
  with assms show ?thesis using unique_select [of s sid sock data] by simp
next
  case Disconnect
  with assms show ?thesis by (simp add: unique_disconnect pending_disconnect)
next
  case (LoadMoreMessages data)
  with assms show ?thesis
    using sameIdentities_inv [OF same_paginated] by (cases data) auto
qed (use assms in \<open>simp_all add: sameIdentities_inv [OF same_create]
   sameIdentities_inv [OF same_join] sameIdentities_inv [OF same_leave]
   sameIdentities_inv [OF same_send] sameIdentities_inv [OF same_clear]
   sameIdentities_inv [OF same_delete] sameIdentities_inv [OF same_message]
   sameIdentities_inv [OF same_history] sameIdentities_inv [OF same_clearChat]\<close>)

lemma unique_connection:
  assumes "uniqueIdentities s \<and> pendingUnnamed s"
  shows "uniqueIdentities (fst (connection s sid)) \<and> pendingUnnamed (fst (connection s sid))"
  using assms by (simp add: connection_def uniqueIdentities_def identityOf_def pendingUnnamed_def)

lemma unique_historyLoaded:
  assumes "uniqueIdentities s \<and> pendingUnnamed s" "pending s sid = Some c" "sockets s sid = None"
  shows "uniqueIdentities (fst (historyLoaded s sid c F))
    \<and> pendingUnnamed (fst (historyLoaded s sid c F))"
proof -
  have "username c = None" using assms(1,2) by (simp add: pendingUnnamed_def)
  then have id: "identityOf (fst (historyLoaded s sid c F)) = identityOf s"
    using assms(3) by (auto simp: historyLoaded_def identityOf_def fun_eq_iff)
  have act: "activeUsernames (fst (historyLoaded s sid c F)) = activeUsernames s"
    by (simp add: historyLoaded_def)
  have "pendingUnnamed (fst (historyLoaded s sid c F))"
    using assms(1) by (simp add: historyLoaded_def pendingUnnamed_def)
  with id act assms(1) show ?thesis by (simp add: uniqueIdentities_def)
qed

lemma unique_dispatch:
  assumes "uniqueIdentities s \<and> pendingUnnamed s"
  shows "uniqueIdentities (fst (dispatch s i)) \<and> pendingUnnamed (fst (dispatch s i))"
proof (cases "sockets s (inSid i)")
  case (Some sock)
  with assms show ?thesis using unique_handle [of s "inSid i" sock] by (simp add: dispatch_def)
next
  case None
  show ?thesis
  proof (cases "pending s (inSid i)")
    case absent: None
    with None assms show ?thesis using unique_connection [of s "inSid i"]
      by (simp add: dispatch_def)
  next
    case (Some c)
    have gone: "uniqueIdentities (s\<lparr>pending := (pending s)(inSid i := None)\<rparr>)
        \<and> pendingUnnamed (s\<lparr>pending := (pending s)(inSid i := None)\<rparr>)"
      using assms by (simp add: uniqueIdentities_def identityOf_def pendingUnnamed_def)
    from Some None assms gone show ?thesis
      using unique_historyLoaded [of s "inSid i" c "inFaults i"] by (simp add: dispatch_def)
  qed
qed

lemma reachable_unique: "reachable s \<Longrightarrow> uniqueIdentities s \<and> pendingUnnamed s"
proof (induction rule: reachable.induct)
  case reachable_init
  show ?case by (simp add: uniqueIdentities_def identityOf_def pendingUnnamed_def init_state_def)
next
  case (reachable_step s i)
  then show ?case using unique_dispatch [of s i] by simp
qed

lemma reachable_run: "reachable s \<Longrightarrow> reachable (run s is)"
  by (induction "is" arbitrary: s) (simp_all add: reachable_step)

text \<open>
  C5. In every reachable state, when the live connection \<open>a\<close> holds the identity \<open>u\<close>, no
  other live connection \<open>b\<close> holds \<open>u\<close>, and a claim of \<open>u\<close> by \<open>b\<close> is answered with
  \<open>username_taken\<close> to \<open>b\<close> alone and changes nothing (so \<open>u\<close> cannot be claimed while its
  holder is connected); once \<open>a\<close> has disconnected, a claim of a non-empty \<open>u\<close> by \<open>b\<close>
  binds \<open>u\<close> to \<open>b\<close>.
\<close>

theorem one_holder_per_identity:
  assumes "reachable s" and "sockets s a = Some sa" and "username sa = Some u"
    and "sockets s b = Some sb" and "a \<noteq> b"
  shows "username sb \<noteq> Some u
    \<and> dispatch s \<lparr>inSid = b, inRequest = SelectUsername (Some u), inNow = now, inFaults = F\<rparr>
        = (s, [(ToSocket b, UsernameTaken msgTaken)])
    \<and> (u \<noteq> [] \<longrightarrow>
         identityOf (run s [\<lparr>inSid = a, inRequest = Disconnect, inNow = now, inFaults = F\<rparr>,
                            \<lparr>inSid = b, inRequest = SelectUsername (Some u), inNow = now,
                             inFaults = F\<rparr>]) b
           = Some u)"
proof -
  have inv: "uniqueIdentities s" using reachable_unique [OF assms(1)] by simp
  have ida: "identityOf s a = Some u" using assms(2,3) by (simp add: identityOf_def)
  have idb: "identityOf s b = username sb" using assms(4) by (simp add: identityOf_def)
  have other: "username sb \<noteq> Some u"
  proof
    assume "username sb = Some u"
    with idb have "identityOf s b = Some u" by simp
    with inv ida have "a = b" by (auto simp: uniqueIdentities_def)
    with assms(5) show False by simp
  qed
  have taken: "u \<in> activeUsernames s" using inv ida by (auto simp: uniqueIdentities_def)
  have refused: "dispatch s \<lparr>inSid = b, inRequest = SelectUsername (Some u), inNow = now,
        inFaults = F\<rparr> = (s, [(ToSocket b, UsernameTaken msgTaken)])"
    using assms(4) taken by (simp add: dispatch_def handleUsernameSelection_def)
  have released: "identityOf (run s [\<lparr>inSid = a, inRequest = Disconnect, inNow = now, inFaults = F\<rparr>,
        \<lparr>inSid = b, inRequest = SelectUsername (Some u), inNow = now, inFaults = F\<rparr>]) b
           = Some u" if "u \<noteq> []"
    using assms(2,3,4,5) that
    by (simp add: dispatch_def handleDisconnection_def handleUsernameSelection_def truthy_def
        usernameOf_def identityOf_def)
  from other refused released show ?thesis by blast
qed

theorem one_holder_per_identity_witness:
  "reachable (run init_state (connect sidA @ [req sidA (SelectUsername (Some zoe))] @ connect sidB))
   \<and> sockets (run init_state (connect sidA @ [req sidA (SelectUsername (Some zoe))] @ connect sidB))
       sidA = Some \<lparr>username = Some zoe, rooms = {sidA}\<rparr>
   \<and> sockets (run init_state (connect sidA @ [req sidA (SelectUsername (Some zoe))] @ connect sidB))
       sidB = Some \<lparr>username = None, rooms = {sidB}\<rparr>
   \<and> sidA \<noteq> sidB
   \<and> snd (dispatch
        (run init_state (connect sidA @ [req sidA (SelectUsername (Some zoe))] @ connect sidB))
        (req sidB (SelectUsername (Some zoe)))) = [(ToSocket sidB, UsernameTaken msgTaken)]
   \<and> identityOf (run init_state (connect sidA @ [req sidA (SelectUsername (Some zoe))]
        @ connect sidB @ [req sidA Disconnect, req sidB (SelectUsername (Some zoe))])) sidB
       = Some zoe"
proof -
  let ?s = "run init_state (connect sidA @ [req sidA (SelectUsername (Some zoe))] @ connect sidB)"
  have r: "reachable ?s" by (rule reachable_run [OF reachable_init])
  have a: "sockets ?s sidA = Some \<lparr>username = Some zoe, rooms = {sidA}\<rparr>"
    by (simp add: handler_defs example_defs string_defs)
  have b: "sockets ?s sidB = Some \<lparr>username = None, rooms = {sidB}\<rparr>"
    by (simp add: handler_defs example_defs string_defs)
  have u: "username \<lparr>username = Some zoe, rooms = {sidA}\<rparr> = Some zoe" by simp
  have ne: "sidA \<noteq> sidB" by (simp add: example_defs string_defs)
  have z: "zoe \<noteq> []" by (simp add: example_defs string_defs)
  from one_holder_per_identity [OF r a u b ne, of now0 "{}"] z
  have "dispatch ?s (req sidB (SelectUsername (Some zoe))) = (?s, [(ToSocket sidB, UsernameTaken msgTaken)])"
    and "identityOf (run ?s [req sidA Disconnect, req sidB (SelectUsername (Some zoe))]) sidB = Some zoe"
    by (simp_all add: req_def)
  moreover have "run ?s [req sidA Disconnect, req sidB (SelectUsername (Some zoe))]
      = run init_state (connect sidA @ [req sidA (SelectUsername (Some zoe))]
        @ connect sidB @ [req sidA Disconnect, req sidB (SelectUsername (Some zoe))])"
    by (simp add: connect_def)
  ultimately show ?thesis using r a b ne by simp
qed

section \<open>Rooms\<close>

lemma groups_create:
  "groups (fst (handleCreateGroup s sid sock g n now F)) \<subseteq> groups s \<union> {r. isValidGroupId r}"
  by (auto simp: handleCreateGroup_def Let_def)

lemma groups_join: "groups (fst (handleJoinGroup s sid sock g F)) = groups s"
  by (simp add: handleJoinGroup_def Let_def)

lemma groups_leave: "groups (fst (handleLeaveGroup s sid sock g F)) = groups s"
  by (simp add: handleLeaveGroup_def Let_def)

lemma groups_send: "groups (fst (handleGroupMessage s sid sock g m ts F)) = groups s"
  by (simp add: handleGroupMessage_def Let_def)

lemma groups_clear: "groups (fst (handleClearGroupHistory s sid sock g now F)) = groups s"
  by (simp add: handleClearGroupHistory_def Let_def)

lemma groups_delete: "groups (fst (handleDeleteGroup s sid sock g F)) \<subseteq> groups s"
  by (auto simp: handleDeleteGroup_def Let_def)

lemma groups_paginated: "groups (fst (loadPaginatedMessages s sid off lim F)) = groups s"
  by (simp add: loadPaginatedMessages_def Let_def)

lemma groups_handle:
  "groups (fst (handle s sid sock r now F)) \<subseteq> groups s \<union> {r. isValidGroupId r}"
proof (cases r)
  case (CreateGroup g n)
  then show ?thesis using groups_create by simp
next
  case (DeleteGroup g)
  then show ?thesis using groups_delete by (simp add: le_supI1)
next
  case (LoadMoreMessages data)
  then show ?thesis by (cases data) (auto simp: groups_paginated)
qed (simp_all add: groups_join groups_leave groups_send groups_clear handleUsernameSelection_def
      handleMessage_def clearChatHistory_def loadHistoricalMessages_def
      handleDisconnection_def Let_def split: option.split)

lemma groups_dispatch:
  "groups (fst (dispatch s i)) \<subseteq> groups s \<union> {r. isValidGroupId r}"
proof (cases "sockets s (inSid i)")
  case (Some sock)
  then show ?thesis using groups_handle [of s "inSid i" sock] by (simp add: dispatch_def)
next
  case None
  then show ?thesis
    by (simp add: dispatch_def connection_def historyLoaded_def split: option.split)
qed

lemma reachable_validRegistry: "reachable s \<Longrightarrow> validRegistry s"
proof (induction rule: reachable.induct)
  case reachable_init
  show ?case by (simp add: validRegistry_def init_state_def)
next
  case (reachable_step s i)
  then show ?case using groups_dispatch [of s i] by (auto simp: validRegistry_def)
qed

text \<open>
  C1. In every reachable state, a delete of a room in the registry that is requested by an
  identified connection whose identity is not the owner recorded in the room's metadata
  changes nothing at all (registry, metadata, membership set and message log included) and
  emits a single event, to the requester: the error \<open>Only the group owner can delete this
  group.\<close>, or the generic failure when the store throws on one of the two reads that come
  before the owner test. So only the owner's request deletes.
\<close>

theorem delete_requires_owner:
  assumes "reachable s" and "sockets s sid = Some sock" and "truthy (username sock)"
    and "trim g \<in> groups s"
    and "map_option metaOwner (groupMeta s (trim g)) \<noteq> Some (usernameOf sock)"
  shows "dispatch s \<lparr>inSid = sid, inRequest = DeleteGroup g, inNow = now, inFaults = F\<rparr>
     = (s, [(ToSocket sid, ErrorEvent (if 0 \<in> F \<or> 1 \<in> F then msgFailDelete else msgNotOwner))])"
proof -
  have "isValidGroupId (trim g)"
    using reachable_validRegistry [OF assms(1)] assms(4) by (simp add: validRegistry_def)
  with assms(2-5) show ?thesis
    by (simp add: dispatch_def handleDeleteGroup_def Let_def orElse_def)
qed

theorem delete_requires_owner_witness:
  "reachable (run init_state
       (connect sidA @ [req sidA (SelectUsername (Some alice)), req sidA (CreateGroup team1 [])]
        @ connect sidB @ [req sidB (SelectUsername (Some bob)), req sidB (JoinGroup team1)]))
   \<and> sockets (run init_state
       (connect sidA @ [req sidA (SelectUsername (Some alice)), req sidA (CreateGroup team1 [])]
        @ connect sidB @ [req sidB (SelectUsername (Some bob)), req sidB (JoinGroup team1)])) sidB
      = Some \<lparr>username = Some bob, rooms = {team1, sidB}\<rparr>
   \<and> team1 \<in> groups (run init_state
       (connect sidA @ [req sidA (SelectUsername (Some alice)), req sidA (CreateGroup team1 [])]
        @ connect sidB @ [req sidB (SelectUsername (Some bob)), req sidB (JoinGroup team1)]))
   \<and> bob \<in> groupMembers (run init_state
       (connect sidA @ [req sidA (SelectUsername (Some alice)), req sidA (CreateGroup team1 [])]
        @ connect sidB @ [req sidB (SelectUsername (Some bob)), req sidB (JoinGroup team1)])) team1
   \<and> map_option metaOwner (groupMeta (run init_state
       (connect sidA @ [req sidA (SelectUsername (Some alice)), req sidA (CreateGroup team1 [])]
        @ connect sidB @ [req sidB (SelectUsername (Some bob)), req sidB (JoinGroup team1)])) team1)
      = Some alice
   \<and> dispatch (run init_state
       (connect sidA @ [req sidA (SelectUsername (Some alice)), req sidA (CreateGroup team1 [])]
        @ connect sidB @ [req sidB (SelectUsername (Some bob)), req sidB (JoinGroup team1)]))
       (req sidB (DeleteGroup team1))
      = (run init_state
       (connect sidA @ [req sidA (SelectUsername (Some alice)), req sidA (CreateGroup team1 [])]
        @ connect sidB @ [req sidB (SelectUsername (Some bob)), req sidB (JoinGroup team1)]),
         [(ToSocket sidB, ErrorEvent msgNotOwner)])"
proof -
  let ?s = "run init_state
       (connect sidA @ [req sidA (SelectUsername (Some alice)), req sidA (CreateGroup team1 [])]
        @ connect sidB @ [req sidB (SelectUsername (Some bob)), req sidB (JoinGroup team1)])"
  let ?bob = "\<lparr>username = Some bob, rooms = {team1, sidB}\<rparr>"
  have r: "reachable ?s" by (rule reachable_run [OF reachable_init])
  have live: "sockets ?s sidB = Some ?bob"
    by (simp add: handler_defs string_defs example_defs)
  have named: "truthy (username ?bob)" by (simp add: truthy_def example_defs string_defs)
  have trimmed: "trim team1 = team1" by (simp add: string_defs example_defs)
  have room: "trim team1 \<in> groups ?s"
    unfolding trimmed by (simp add: handler_defs string_defs example_defs)
  have member: "bob \<in> groupMembers ?s team1"
    by (simp add: handler_defs string_defs example_defs)
  have owner: "map_option metaOwner (groupMeta ?s team1) = Some alice"
    by (simp add: handler_defs string_defs example_defs)
  have differ: "alice \<noteq> bob" by (simp add: string_defs example_defs)
  have other: "map_option metaOwner (groupMeta ?s (trim team1)) \<noteq> Some (usernameOf ?bob)"
    unfolding trimmed owner using differ by (simp add: usernameOf_def)
  from delete_requires_owner [OF r live named room other, of now0 "{}"]
  have "dispatch ?s (req sidB (DeleteGroup team1)) = (?s, [(ToSocket sidB, ErrorEvent msgNotOwner)])"
    by (simp add: req_def)
  with r live room member owner show ?thesis unfolding trimmed by blast
qed

text \<open>
  C10. In every reachable state, a delete of a room in the registry that is requested by
  the identified connection whose identity is the recorded owner, with the store answering,
  broadcasts \<open>group_deleted\<close> to the room and removes the room from the registry with its
  metadata, membership set and message log. Nothing is assumed about the membership set:
  the handler reads the registry and the owner field only, so an owner who has left the
  room deletes it all the same.
\<close>

theorem owner_deletes_without_membership:
  assumes "reachable s" and "sockets s sid = Some sock" and "truthy (username sock)"
    and "trim g \<in> groups s"
    and "map_option metaOwner (groupMeta s (trim g)) = Some (usernameOf sock)"
  shows "snd (dispatch s \<lparr>inSid = sid, inRequest = DeleteGroup g, inNow = now, inFaults = {}\<rparr>)
       = [(ToRoom (trim g), GroupDeleted (trim g) (usernameOf sock))]
    \<and> trim g \<notin> groups (fst (dispatch s \<lparr>inSid = sid, inRequest = DeleteGroup g, inNow = now, inFaults = {}\<rparr>))
    \<and> groupMeta (fst (dispatch s \<lparr>inSid = sid, inRequest = DeleteGroup g, inNow = now, inFaults = {}\<rparr>)) (trim g) = None
    \<and> groupMembers (fst (dispatch s \<lparr>inSid = sid, inRequest = DeleteGroup g, inNow = now, inFaults = {}\<rparr>)) (trim g) = {}
    \<and> groupMessages (fst (dispatch s \<lparr>inSid = sid, inRequest = DeleteGroup g, inNow = now, inFaults = {}\<rparr>)) (trim g) = []"
proof -
  have "isValidGroupId (trim g)"
    using reachable_validRegistry [OF assms(1)] assms(4) by (simp add: validRegistry_def)
  with assms(2-5) show ?thesis
    by (simp add: dispatch_def handleDeleteGroup_def Let_def orElse_def)
qed

theorem owner_deletes_without_membership_witness:
  "reachable (run init_state
       (connect sidA @ [req sidA (SelectUsername (Some alice)), req sidA (CreateGroup team1 []),
        req sidA (LeaveGroup team1)]))
   \<and> sockets (run init_state
       (connect sidA @ [req sidA (SelectUsername (Some alice)), req sidA (CreateGroup team1 []),
        req sidA (LeaveGroup team1)])) sidA = Some \<lparr>username = Some alice, rooms = {sidA}\<rparr>
   \<and> team1 \<in> groups (run init_state
       (connect sidA @ [req sidA (SelectUsername (Some alice)), req sidA (CreateGroup team1 []),
        req sidA (LeaveGroup team1)]))
   \<and> alice \<notin> groupMembers (run init_state
       (connect sidA @ [req sidA (SelectUsername (Some alice)), req sidA (CreateGroup team1 []),
        req sidA (LeaveGroup team1)])) team1
   \<and> snd (dispatch (run init_state
       (connect sidA @ [req sidA (SelectUsername (Some alice)), req sidA (CreateGroup team1 []),
        req sidA (LeaveGroup team1)])) (req sidA (DeleteGroup team1)))
      = [(ToRoom team1, GroupDeleted team1 alice)]
   \<and> team1 \<notin> groups (fst (dispatch (run init_state
       (connect sidA @ [req sidA (SelectUsername (Some alice)), req sidA (CreateGroup team1 []),
        req sidA (LeaveGroup team1)])) (req sidA (DeleteGroup team1))))"
proof -
  let ?s = "run init_state
       (connect sidA @ [req sidA (SelectUsername (Some alice)), req sidA (CreateGroup team1 []),
        req sidA (LeaveGroup team1)])"
  let ?alice = "\<lparr>username = Some alice, rooms = {sidA}\<rparr>"
  have r: "reachable ?s" by (rule reachable_run [OF reachable_init])
  have live: "sockets ?s sidA = Some ?alice"
    by (simp add: handler_defs string_defs example_defs)
  have named: "truthy (username ?alice)" by (simp add: truthy_def example_defs string_defs)
  have trimmed: "trim team1 = team1" by (simp add: string_defs example_defs)
  have room: "trim team1 \<in> groups ?s"
    unfolding trimmed by (simp add: handler_defs string_defs example_defs)
  have left: "alice \<notin> groupMembers ?s team1"
    by (simp add: handler_defs string_defs example_defs)
  have owner: "map_option metaOwner (groupMeta ?s (trim team1)) = Some (usernameOf ?alice)"
    unfolding trimmed by (simp add: handler_defs string_defs example_defs)
  from owner_deletes_without_membership [OF r live named room owner, of now0]
  have "snd (dispatch ?s (req sidA (DeleteGroup team1)))
          = [(ToRoom team1, GroupDeleted team1 alice)]
      \<and> team1 \<notin> groups (fst (dispatch ?s (req sidA (DeleteGroup team1))))"
    unfolding trimmed by (simp add: req_def usernameOf_def)
  with r live room left show ?thesis unfolding trimmed by blast
qed

text \<open>
  C9 as stated fails: bob is identified and not a member of the room \<open>team1\<close>; his room
  message to \<open>team1\<close> with a body of two spaces, or of a no-break space, is dropped by the
  guard that comes before the membership test, and he gets no event at all, so no
  not-a-member error.
\<close>

theorem blank_body_counterexample:
  "sockets (run init_state
       (connect sidA @ [req sidA (SelectUsername (Some alice)), req sidA (CreateGroup team1 [])]
        @ connect sidB @ [req sidB (SelectUsername (Some bob))])) sidB
      = Some \<lparr>username = Some bob, rooms = {sidB}\<rparr>
   \<and> team1 \<in> groups (run init_state
       (connect sidA @ [req sidA (SelectUsername (Some alice)), req sidA (CreateGroup team1 [])]
        @ connect sidB @ [req sidB (SelectUsername (Some bob))]))
   \<and> bob \<notin> groupMembers (run init_state
       (connect sidA @ [req sidA (SelectUsername (Some alice)), req sidA (CreateGroup team1 [])]
        @ connect sidB @ [req sidB (SelectUsername (Some bob))])) team1
   \<and> snd (dispatch (run init_state
       (connect sidA @ [req sidA (SelectUsername (Some alice)), req sidA (CreateGroup team1 [])]
        @ connect sidB @ [req sidB (SelectUsername (Some bob))]))
       (req sidB (sayIn team1 ''  ''))) = []
   \<and> snd (dispatch (run init_state
       (connect sidA @ [req sidA (SelectUsername (Some alice)), req sidA (CreateGroup team1 [])]
        @ connect sidB @ [req sidB (SelectUsername (Some bob))]))
       (req sidB (SendGroupMessage team1 [0xA0] ts0))) = []"
  by (simp add: handler_defs string_defs example_defs)

text \<open>
  C9 (as amended). A room message from an identified connection whose identity is not in
  the room's membership set changes nothing (nothing is appended to the room's log) and
  broadcasts to no room, whatever the body, the id and the store do. When the body is not
  empty after trimming, the room id is well formed and the store answers the membership
  test, the single event emitted is the error \<open>You are not a member of this group.\<close>, to
  the requester (the generic failure when the store throws on that test). When the body is
  empty after trimming or the room id is malformed, nothing is emitted.
\<close>

theorem nonmember_send_rejected:
  assumes "sockets s sid = Some sock" and "truthy (username sock)"
    and "usernameOf sock \<notin> groupMembers s (trim g)"
  shows "fst (dispatch s \<lparr>inSid = sid, inRequest = SendGroupMessage g m ts, inNow = now, inFaults = F\<rparr>) = s
    \<and> (\<forall>r e. (ToRoom r, e) \<notin> set (snd (dispatch s
          \<lparr>inSid = sid, inRequest = SendGroupMessage g m ts, inNow = now, inFaults = F\<rparr>)))
    \<and> (isValidGroupId (trim g) \<and> trim m \<noteq> [] \<and> 0 \<notin> F \<longrightarrow>
         snd (dispatch s \<lparr>inSid = sid, inRequest = SendGroupMessage g m ts, inNow = now, inFaults = F\<rparr>)
           = [(ToSocket sid, ErrorEvent msgNotMember)])
    \<and> (isValidGroupId (trim g) \<and> trim m \<noteq> [] \<and> 0 \<in> F \<longrightarrow>
         snd (dispatch s \<lparr>inSid = sid, inRequest = SendGroupMessage g m ts, inNow = now, inFaults = F\<rparr>)
           = [(ToSocket sid, ErrorEvent msgFailSend)])
    \<and> (trim m = [] \<or> \<not> isValidGroupId (trim g) \<longrightarrow>
         snd (dispatch s \<lparr>inSid = sid, inRequest = SendGroupMessage g m ts, inNow = now, inFaults = F\<rparr>)
           = [])"
  using assms by (auto simp: dispatch_def handleGroupMessage_def Let_def orElse_def)

theorem nonmember_send_rejected_witness:
  "sockets (run init_state
       (connect sidA @ [req sidA (SelectUsername (Some alice)), req sidA (CreateGroup team1 [])]
        @ connect sidB @ [req sidB (SelectUsername (Some bob))])) sidB
      = Some \<lparr>username = Some bob, rooms = {sidB}\<rparr>
   \<and> bob \<notin> groupMembers (run init_state
       (connect sidA @ [req sidA (SelectUsername (Some alice)), req sidA (CreateGroup team1 [])]
        @ connect sidB @ [req sidB (SelectUsername (Some bob))])) team1
   \<and> isValidGroupId (trim team1) \<and> trim (js ''hi'') \<noteq> [] \<and> (0::nat) \<notin> {}
   \<and> dispatch (run init_state
       (connect sidA @ [req sidA (SelectUsername (Some alice)), req sidA (CreateGroup team1 [])]
        @ connect sidB @ [req sidB (SelectUsername (Some bob))]))
       (req sidB (sayIn team1 ''hi''))
      = (run init_state
       (connect sidA @ [req sidA (SelectUsername (Some alice)), req sidA (CreateGroup team1 [])]
        @ connect sidB @ [req sidB (SelectUsername (Some bob))]),
         [(ToSocket sidB, ErrorEvent msgNotMember)])
   \<and> trim [0x2003, 0x20] = []
   \<and> dispatch (run init_state
       (connect sidA @ [req sidA (SelectUsername (Some alice)), req sidA (CreateGroup team1 [])]
        @ connect sidB @ [req sidB (SelectUsername (Some bob))]))
       (req sidB (SendGroupMessage team1 [0x2003, 0x20] ts0))
      = (run init_state
       (connect sidA @ [req sidA (SelectUsername (Some alice)), req sidA (CreateGroup team1 [])]
        @ connect sidB @ [req sidB (SelectUsername (Some bob))]), [])"
proof -
  let ?s = "run init_state
       (connect sidA @ [req sidA (SelectUsername (Some alice)), req sidA (CreateGroup team1 [])]
        @ connect sidB @ [req sidB (SelectUsername (Some bob))])"
  let ?bob = "\<lparr>username = Some bob, rooms = {sidB}\<rparr>"
  let ?i = "\<lparr>inSid = sidB, inRequest = SendGroupMessage team1 (js ''hi'') ts0, inNow = now0,
              inFaults = {}\<rparr>"
  let ?j = "\<lparr>inSid = sidB, inRequest = SendGroupMessage team1 [0x2003, 0x20] ts0, inNow = now0,
              inFaults = {}\<rparr>"
  have live: "sockets ?s sidB = Some ?bob"
    by (simp add: handler_defs string_defs example_defs)
  have named: "truthy (username ?bob)" by (simp add: truthy_def example_defs string_defs)
  have trimmed: "trim team1 = team1" by (simp add: string_defs example_defs)
  have outside: "bob \<notin> groupMembers ?s team1"
    by (simp add: handler_defs string_defs example_defs)
  have nonmember: "usernameOf ?bob \<notin> groupMembers ?s (trim team1)"
    unfolding trimmed using outside by (simp add: usernameOf_def)
  have valid: "isValidGroupId (trim team1)" by (simp add: string_defs example_defs)
  have body: "trim (js ''hi'') \<noteq> []" by (simp add: string_defs)
  have blank: "trim [0x2003, 0x20] = []" by (simp add: string_defs)
  from nonmember_send_rejected [OF live named nonmember, of "js ''hi''" ts0 now0 "{}"]
  have "fst (dispatch ?s ?i) = ?s"
    and "isValidGroupId (trim team1) \<and> trim (js ''hi'') \<noteq> [] \<and> 0 \<notin> ({}::nat set) \<longrightarrow>
         snd (dispatch ?s ?i) = [(ToSocket sidB, ErrorEvent msgNotMember)]"
    by blast+
  with valid body have said: "dispatch ?s ?i = (?s, [(ToSocket sidB, ErrorEvent msgNotMember)])"
    by (simp add: prod_eq_iff)
  from nonmember_send_rejected [OF live named nonmember, of "[0x2003, 0x20]" ts0 now0 "{}"]
  have "fst (dispatch ?s ?j) = ?s"
    and "trim [0x2003, 0x20] = [] \<or> \<not> isValidGroupId (trim team1) \<longrightarrow> snd (dispatch ?s ?j) = []"
    by blast+
  with blank have dropped: "dispatch ?s ?j = (?s, [])"
    by (simp add: prod_eq_iff)
  from live outside valid body said blank dropped show ?thesis
    by (simp add: req_def sayIn_def)
qed

section \<open>Outcome events\<close>




















section \<open>Identity claims\<close>

text \<open>
  C4 as stated fails on the server: \<open>handleUsernameSelection\<close> does not look at the form of
  the name. The one-character name \<open>a\<close>, which the browser's check refuses as too short,
  is accepted when it arrives in a \<open>select_username\<close> request, added to the claimed names
  and bound to the connection.
\<close>

theorem server_accepts_malformed_identity_counterexample:
  "validateUsername (js ''a'') = Some errShort
   \<and> snd (dispatch (run init_state (connect sidA)) (req sidA (SelectUsername (Some (js ''a'')))))
       = [(ToSocket sidA, UsernameAccepted (js ''a'')), (Broadcast sidA, UserJoined (js ''a''))]
   \<and> activeUsernames (fst (dispatch (run init_state (connect sidA))
        (req sidA (SelectUsername (Some (js ''a''))))))
       = {js ''a''}
   \<and> identityOf (fst (dispatch (run init_state (connect sidA))
        (req sidA (SelectUsername (Some (js ''a'')))))) sidA
       = Some (js ''a'')"
  by (simp add: handler_defs string_defs example_defs validateUsername_def minLength_def
      identityOf_def)

text \<open>
  C4 (as amended). An identity entered in the browser's form that is empty after trimming,
  shorter than 2 or longer than 20 characters, or that has a character outside
  \<open>[a-zA-Z0-9_-]\<close>, is refused by \<open>validateUsername\<close> with a validation message and
  \<open>handleUsernameSubmit\<close> sends no claim to the server, so no state of the server is touched.
  The server's handler makes no such check: it accepts every name that is not in the set
  of claimed names.
\<close>

theorem malformed_identity_stopped_in_client:
  assumes "trim u = [] \<or> length (trim u) < 2 \<or> 20 < length (trim u) \<or> \<not> list_all idChar (trim u)"
  shows "(\<exists>err. validateUsername u = Some err \<and> handleUsernameSubmit u = ShowUsernameError err)
    \<and> (\<forall>w. handleUsernameSubmit u \<noteq> EmitSelectUsername w)
    \<and> (w \<notin> activeUsernames s \<longrightarrow>
         snd (handleUsernameSelection s sid sock (Some w))
           = [(ToSocket sid, UsernameAccepted w), (Broadcast sid, UserJoined w)])"
  using assms
  by (auto simp: validateUsername_def handleUsernameSubmit_def handleUsernameSelection_def
      Let_def minLength_def maxLength_def)

theorem malformed_identity_stopped_in_client_witness:
  "length (trim (js ''a'')) < 2
   \<and> handleUsernameSubmit (js ''a'') = ShowUsernameError errShort
   \<and> js ''a'' \<notin> activeUsernames (run init_state (connect sidA))
   \<and> snd (handleUsernameSelection (run init_state (connect sidA)) sidA
            \<lparr>username = None, rooms = {sidA}\<rparr> (Some (js ''a'')))
       = [(ToSocket sidA, UsernameAccepted (js ''a'')), (Broadcast sidA, UserJoined (js ''a''))]"
proof -
  have short: "length (trim (js ''a'')) < 2" by (simp add: string_defs)
  have free: "js ''a'' \<notin> activeUsernames (run init_state (connect sidA))"
    by (simp add: handler_defs example_defs)
  from malformed_identity_stopped_in_client [of "js ''a''" "js ''a''"
      "run init_state (connect sidA)" sidA "\<lparr>username = None, rooms = {sidA}\<rparr>"] short free
  have "snd (handleUsernameSelection (run init_state (connect sidA)) sidA
            \<lparr>username = None, rooms = {sidA}\<rparr> (Some (js ''a'')))
       = [(ToSocket sidA, UsernameAccepted (js ''a'')), (Broadcast sidA, UserJoined (js ''a''))]"
    by blast
  moreover have "handleUsernameSubmit (js ''a'') = ShowUsernameError errShort"
    by (simp add: handleUsernameSubmit_def validateUsername_def string_defs minLength_def)
  ultimately show ?thesis using short free by blast
qed

text \<open>
  The check is made on the trimmed name: a well-formed name between a no-break space and a
  U+3000 space passes it and is sent to the server trimmed.
\<close>

lemma padded_name_is_sent:
  "handleUsernameSubmit ([0xA0] @ js ''ab'' @ [0x3000]) = EmitSelectUsername (js ''ab'')"
  by (simp add: handleUsernameSubmit_def validateUsername_def string_defs minLength_def
      maxLength_def)

text \<open>
  C6 (the code's behaviour at a concrete input). A connection that holds \<open>bob\<close> claims
  \<open>alice\<close>: the claim is accepted and the connection's identity is now \<open>alice\<close>, while
  \<open>bob\<close> stays in the set of claimed names with no connection holding it. When the
  connection disconnects, only \<open>alice\<close> is released: \<open>bob\<close> is still claimed, no connection
  is left, and a new connection that claims \<open>bob\<close> is told that the name is taken.
\<close>

theorem reclaim_leaves_stale_name:
  "identityOf (run init_state (connect sidA @ [req sidA (SelectUsername (Some bob))])) sidA = Some bob
   \<and> snd (dispatch (run init_state (connect sidA @ [req sidA (SelectUsername (Some bob))]))
        (req sidA (SelectUsername (Some alice))))
       = [(ToSocket sidA, UsernameAccepted alice), (Broadcast sidA, UserJoined alice)]
   \<and> identityOf (run init_state (connect sidA @ [req sidA (SelectUsername (Some bob)),
        req sidA (SelectUsername (Some alice))])) sidA = Some alice
   \<and> activeUsernames (run init_state (connect sidA @ [req sidA (SelectUsername (Some bob)),
        req sidA (SelectUsername (Some alice))])) = {alice, bob}
   \<and> activeUsernames (run init_state (connect sidA @ [req sidA (SelectUsername (Some bob)),
        req sidA (SelectUsername (Some alice)), req sidA Disconnect])) = {bob}
   \<and> sockets (run init_state (connect sidA @ [req sidA (SelectUsername (Some bob)),
        req sidA (SelectUsername (Some alice)), req sidA Disconnect])) sidA = None
   \<and> snd (dispatch (run init_state (connect sidA @ [req sidA (SelectUsername (Some bob)),
        req sidA (SelectUsername (Some alice)), req sidA Disconnect] @ connect sidB))
        (req sidB (SelectUsername (Some bob))))
       = [(ToSocket sidB, UsernameTaken msgTaken)]"
  by (simp add: handler_defs string_defs example_defs identityOf_def)

end
